theory Spec2Isabelle
  imports Main "HOL-Library.Char_ord" "HOL-Library.List_Lexorder"
begin

section \<open>Text primitives of the host language\<close>

text \<open>
  Text is modelled as \<^typ>\<open>string\<close>, read as the UTF-8 bytes of the Python string.
  The template's emoji markers and the accented letter of the affiliation are therefore
  written as their UTF-8 byte sequences. Lexicographic order on byte lists
  (\<open>List_Lexorder\<close> over \<open>Char_ord\<close>) coincides with Python's code point order.

  \<open>lower\<close> is \<open>str.lower()\<close> on the ASCII letters and the identity on every other
  byte. (Python additionally maps non-ASCII capitals; the only code points whose
  lower-casing produces an ASCII letter are U+212A and U+0130, which are outside this model.)
\<close>

definition lower_char :: "char \<Rightarrow> char" where
  "lower_char c =
     (if 65 \<le> (of_char c :: nat) \<and> (of_char c :: nat) \<le> 90
      then char_of ((of_char c :: nat) + 32) else c)"

definition lower :: "string \<Rightarrow> string" where
  "lower s = map lower_char s"

text \<open>\<open>startswith p s\<close> is \<open>s.startswith(p)\<close>; \<open>str_in t s\<close> is the test \<open>t in s\<close>.\<close>

fun startswith :: "string \<Rightarrow> string \<Rightarrow> bool" where
  "startswith [] s = True"
| "startswith (c # cs) [] = False"
| "startswith (c # cs) (d # ds) = (c = d \<and> startswith cs ds)"

fun str_in :: "string \<Rightarrow> string \<Rightarrow> bool" where
  "str_in t [] = (t = [])"
| "str_in t (c # cs) = (startswith t (c # cs) \<or> str_in t cs)"

text \<open>\<open>str_nat n\<close> is \<open>str(n)\<close> for a non-negative integer: its decimal digits.\<close>

definition digit_char :: "nat \<Rightarrow> char" where
  "digit_char d = ''0123456789'' ! d"

fun str_nat :: "nat \<Rightarrow> string" where
  "str_nat n =
     (if n < 10 then [digit_char n] else str_nat (n div 10) @ [digit_char (n mod 10)])"

declare str_nat.simps [simp del]

text \<open>\<open>join sep xs\<close> is \<open>sep.join(xs)\<close>.\<close>

fun join :: "string \<Rightarrow> string list \<Rightarrow> string" where
  "join sep [] = []"
| "join sep [x] = x"
| "join sep (x # y # ys) = x @ sep @ join sep (y # ys)"

section \<open>Data model\<close>

text \<open>
  A NotebookInfo is a JSON object whose keys are each independently absent or present.
  The fields carry the types of the registry schema (text, or an ordered sequence of
  text); \<open>None\<close> is an absent key. \<open>format\<close> is the extra key of the synthesized entry.
\<close>

record notebook_info =
  title :: "string option"
  date :: "string option"
  version :: "string option"
  notebook_id :: "string option"
  notebook_scope :: "string option"
  business_applications :: "string list option"
  models_implemented :: "string list option"
  key_visualizations :: "string list option"
  learning_outcomes :: "string list option"
  technical_features :: "string list option"
  evaluation_methods :: "string list option"
  format :: "string option"

text \<open>
  The registry is the parsed JSON object. Both top-level keys may be missing from a
  registry file, so both are optional here; the repository is a dictionary from key to text.
\<close>

record registry_data =
  repository :: "(string \<rightharpoonup> string) option"
  notebooks :: "(string \<rightharpoonup> notebook_info) option"

record exec_meta =
  execution_timestamp :: string
  platform :: string
  python_version :: string

text \<open>The generator instance: the two attributes that \<open>__init__\<close> sets and rendering reads.\<close>

record generator =
  registry :: registry_data
  execution_metadata :: exec_meta

text \<open>
  What the process can observe of its surroundings at one moment:
  \<open>now_timestamp\<close> is \<open>datetime.now().strftime('%Y-%m-%d %H:%M:%S')\<close>,
  \<open>now_date\<close> is \<open>datetime.now().strftime('%Y-%m-%d')\<close>,
  \<open>platform_platform\<close> is \<open>platform.platform()\<close>, \<open>version_info\<close> is
  \<open>sys.version_info\<close> (major, minor, micro) and \<open>uuid4\<close> is the text of the next
  \<open>uuid.uuid4()\<close>. One call sees one such snapshot: the clock reads made during a single
  call are taken to return the same day.
\<close>

record environment =
  now_timestamp :: string
  now_date :: string
  platform_platform :: string
  version_info :: "nat \<times> nat \<times> nat"
  uuid4 :: string

text \<open>Exceptions are values; \<open>str_error\<close> is \<open>str(e)\<close>.\<close>

datatype error = KeyError string

fun str_error :: "error \<Rightarrow> string" where
  "str_error (KeyError k) = [CHR 0x27] @ k @ [CHR 0x27]"

text \<open>What a call writes besides its return value: printed lines and displayed documents.\<close>

datatype out_event = Print string | Display string

text \<open>\<open>subscript d k\<close> is \<open>d[k]\<close> on a dictionary: a missing key raises \<open>KeyError\<close>.\<close>

definition subscript :: "(string \<rightharpoonup> 'v) \<Rightarrow> string \<Rightarrow> error + 'v" where
  "subscript d k = (case d k of None \<Rightarrow> Inl (KeyError k) | Some v \<Rightarrow> Inr v)"

definition bind_err :: "error + 'a \<Rightarrow> ('a \<Rightarrow> error + 'b) \<Rightarrow> error + 'b" where
  "bind_err r f = (case r of Inl e \<Rightarrow> Inl e | Inr v \<Rightarrow> f v)"

section \<open>Registry loader\<close>

text \<open>
  The registry file as the loader meets it: \<open>Missing\<close> when \<open>exists()\<close> is false,
  \<open>Unreadable e\<close> when testing, opening or reading it raises an exception with text \<open>e\<close>,
  \<open>Readable s\<close> when it reads as \<open>s\<close>. The JSON parser of the standard library is a
  parameter \<open>json_load\<close>: \<open>Inl e\<close> is a parse exception with text \<open>e\<close>.
\<close>

datatype registry_file = Missing | Unreadable string | Readable string

definition get_fallback_registry :: registry_data where
  "get_fallback_registry =
     \<lparr> repository = Some
         [''name'' \<mapsto> ''Quipu Analytics Suite'',
          ''author'' \<mapsto> ''Bryson Charles de los Reyes, PHD'',
          ''affiliation'' \<mapsto> ''Universidad Cat'' @ [CHR 0xC3, CHR 0xB3] @ ''lica de Santa Mar'' @ [CHR 0xC3, CHR 0xAD] @ ''a'',
          ''license'' \<mapsto> ''MIT'',
          ''version'' \<mapsto> ''v1.3''],
       notebooks = Some Map.empty \<rparr>"

definition load_warning :: "string \<Rightarrow> string" where
  "load_warning e =
     [CHR 0xE2, CHR 0x9A, CHR 0xA0, CHR 0xEF, CHR 0xB8, CHR 0x8F]
     @ '' Warning: Could not load registry ('' @ e @ ''). Using fallback.''"

definition load_registry ::
  "(string \<Rightarrow> string + registry_data) \<Rightarrow> registry_file \<Rightarrow> registry_data \<times> out_event list" where
  "load_registry json_load file =
     (case file of
        Readable s \<Rightarrow>
          (case json_load s of
             Inr r \<Rightarrow> (r, [])
           | Inl e \<Rightarrow> (get_fallback_registry, [Print (load_warning e)]))
      | Missing \<Rightarrow> (get_fallback_registry, [])
      | Unreadable e \<Rightarrow> (get_fallback_registry, [Print (load_warning e)]))"

definition init ::
  "(string \<Rightarrow> string + registry_data) \<Rightarrow> registry_file \<Rightarrow> environment \<Rightarrow> generator \<times> out_event list" where
  "init json_load file env =
     (let (reg, out) = load_registry json_load file
      in (\<lparr> registry = reg,
             execution_metadata =
               \<lparr> execution_timestamp = now_timestamp env,
                 platform = platform_platform env,
                 python_version =
                   (case version_info env of (major, minor, micro) \<Rightarrow>
                      str_nat major @ ''.'' @ str_nat minor @ ''.'' @ str_nat micro) \<rparr> \<rparr>,
          out))"

section \<open>Header renderer\<close>

text \<open>\<open>dict_get v d\<close> is \<open>info.get(key, d)\<close> where \<open>v\<close> is the optional field for \<open>key\<close>.\<close>

definition dict_get :: "'a option \<Rightarrow> 'a \<Rightarrow> 'a" where
  "dict_get v d = (case v of None \<Rightarrow> d | Some x \<Rightarrow> x)"

definition get_notebooks :: "registry_data \<Rightarrow> (string \<rightharpoonup> notebook_info)" where
  "get_notebooks reg = (case notebooks reg of None \<Rightarrow> Map.empty | Some m \<Rightarrow> m)"

text \<open>The entry synthesized for a key that is not in the registry.\<close>

definition unknown_notebook_info :: "environment \<Rightarrow> notebook_info" where
  "unknown_notebook_info env =
     \<lparr> title = Some ''Analytics Notebook'',
       date = Some (now_date env),
       version = Some ''v1.3'',
       notebook_id = None,
       notebook_scope = None,
       business_applications = None,
       models_implemented = None,
       key_visualizations = None,
       learning_outcomes = None,
       technical_features = None,
       evaluation_methods = None,
       format = Some ''simplified'' \<rparr>"

text \<open>
  \<open>notebook_key\<close> is \<open>None\<close> for Python's \<open>None\<close>; the test
  \<open>notebook_key and notebook_key in notebooks\<close> fails for \<open>None\<close>, for the empty
  text and for a key the registry lacks.
\<close>

definition select_notebook_info ::
  "registry_data \<Rightarrow> environment \<Rightarrow> string option \<Rightarrow> notebook_info" where
  "select_notebook_info reg env notebook_key =
     (case notebook_key of
        None \<Rightarrow> unknown_notebook_info env
      | Some k \<Rightarrow>
          (if k \<noteq> [] then
             (case get_notebooks reg k of
                Some info \<Rightarrow> info
              | None \<Rightarrow> unknown_notebook_info env)
           else unknown_notebook_info env))"

subsection \<open>Title, authorship, citation and the fixed contributor lines\<close>

text \<open>
  The opening template, cut at its own blank-line separators into the title line, the
  authorship block, the citation and the fixed contributor lines. Its placeholders are
  evaluated left to right, so the repository keys are read in the order author,
  affiliation, license, name, and the first missing one raises.
\<close>

definition title_line :: "notebook_info \<Rightarrow> string" where
  "title_line info = concat
        [''# '', dict_get (title info) ''Analytics Notebook'', ''\<newline>'']"

definition authorship_block ::
  "string \<Rightarrow> string \<Rightarrow> string \<Rightarrow> notebook_info \<Rightarrow> environment \<Rightarrow> string \<Rightarrow> string" where
  "authorship_block author affiliation license info env nid = concat
        [''\<newline>'',
         ''---\<newline>'',
         ''\<newline>'',
         ''**Author:** '', author, ''\<newline>'',
         ''**Affiliation:** '', affiliation, ''\<newline>'',
         ''**Date:** '', dict_get (date info) (now_date env), ''\<newline>'',
         ''**Version:** '', dict_get (version info) ''v1.3'', ''\<newline>'',
         ''**License:** '', license, ''\<newline>'',
         ''**Notebook ID:** '', nid, ''\<newline>'']"

definition citation_block ::
  "string \<Rightarrow> string \<Rightarrow> string \<Rightarrow> notebook_info \<Rightarrow> environment \<Rightarrow> string" where
  "citation_block author affiliation name info env = concat
        [''\<newline>'',
         ''---\<newline>'',
         ''\<newline>'',
         ''## Citation\<newline>'',
         author, '', '', [CHR 0x22], dict_get (title info) ''Analytics Notebook'', '','',
         [CHR 0x22], '' '', name, '', '', affiliation, '', '',
         dict_get (version info) ''v1.3'', '', '', dict_get (date info) (now_date env),
         ''.\<newline>'',
         ''\<newline>'',
         ''Please cite this notebook if used or adapted in publications, presentations, or derivative work.\<newline>'']"

definition contributors_block :: "string \<Rightarrow> string \<Rightarrow> string" where
  "contributors_block author affiliation = concat
        [''\<newline>'',
         ''---\<newline>'',
         ''\<newline>'',
         ''## Contributors / Acknowledgments\<newline>'',
         ''- **Primary Author:** '', author, '' ('', affiliation, '')\<newline>'',
         ''- **Institutional Support:** '', affiliation, '' - Advanced Analytics Division\<newline>'',
         ''- **Technical Framework:** Built on scikit-learn, pandas, numpy, and plotly ecosystems\<newline>'',
         ''- **Methodological Foundation:** Statistical learning principles and modern data science best practices\<newline>'']"

definition opening_text ::
  "string \<Rightarrow> string \<Rightarrow> string \<Rightarrow> string \<Rightarrow> notebook_info \<Rightarrow> environment \<Rightarrow> string \<Rightarrow> string" where
  "opening_text author affiliation license name info env nid =
     title_line info
     @ authorship_block author affiliation license info env nid
     @ citation_block author affiliation name info env
     @ contributors_block author affiliation"

definition opening_block ::
  "(string \<rightharpoonup> string) \<Rightarrow> notebook_info \<Rightarrow> environment \<Rightarrow> string \<Rightarrow> error + string" where
  "opening_block repo info env nid =
     bind_err (subscript repo ''author'') (\<lambda>author.
     bind_err (subscript repo ''affiliation'') (\<lambda>affiliation.
     bind_err (subscript repo ''license'') (\<lambda>license.
     bind_err (subscript repo ''name'') (\<lambda>name.
       Inr (opening_text author affiliation license name info env nid)))))"

subsection \<open>Conditional subsections of the Contributors block\<close>

text \<open>The loop \<open>for x in xs: header += f"- {x}\n"\<close>, threading \<open>header\<close>.\<close>

primrec append_bullets :: "string list \<Rightarrow> string \<Rightarrow> string" where
  "append_bullets [] header = header"
| "append_bullets (x # xs) header = append_bullets xs (header @ ''- '' @ x @ ''\<newline>'')"

definition add_notebook_scope :: "notebook_info \<Rightarrow> string \<Rightarrow> string" where
  "add_notebook_scope info header =
     (case notebook_scope info of
        None \<Rightarrow> header
      | Some scope \<Rightarrow>
          header @ ''\<newline>### '' @ [CHR 0xF0, CHR 0x9F, CHR 0x93, CHR 0x8B]
            @ '' Notebook Scope\<newline>'' @ scope @ ''\<newline>'')"

definition add_business_applications :: "notebook_info \<Rightarrow> string \<Rightarrow> string" where
  "add_business_applications info header =
     (case business_applications info of
        None \<Rightarrow> header
      | Some applications \<Rightarrow>
          (let header = header @ ''\<newline>### '' @ [CHR 0xF0, CHR 0x9F, CHR 0x8F, CHR 0xA2]
                 @ '' Business Applications ('' @ str_nat (length applications) @ '' total)\<newline>''
           in if length applications > 5
              then append_bullets (take 5 applications) header
                   @ ''- *...and '' @ str_nat (length applications - 5) @ '' more applications*\<newline>''
              else append_bullets applications header))"

definition add_models_implemented :: "notebook_info \<Rightarrow> string \<Rightarrow> string" where
  "add_models_implemented info header =
     (case models_implemented info of
        None \<Rightarrow> header
      | Some models \<Rightarrow>
          (let header = header @ ''\<newline>### '' @ [CHR 0xF0, CHR 0x9F, CHR 0xA4, CHR 0x96]
                 @ '' Models Implemented ('' @ str_nat (length models) @ '' total)\<newline>''
           in if length models > 5
              then append_bullets (take 5 models) header
                   @ ''- *...and '' @ str_nat (length models - 5) @ '' additional models*\<newline>''
              else append_bullets models header))"

definition add_key_visualizations :: "notebook_info \<Rightarrow> string \<Rightarrow> string" where
  "add_key_visualizations info header =
     (case key_visualizations info of
        None \<Rightarrow> header
      | Some visualizations \<Rightarrow>
          (let header = header @ ''\<newline>### '' @ [CHR 0xF0, CHR 0x9F, CHR 0x93, CHR 0x8A]
                 @ '' Key Visualizations ('' @ str_nat (length visualizations) @ '' total)\<newline>''
           in if length visualizations > 4
              then append_bullets (take 4 visualizations) header
                   @ ''- *...and '' @ str_nat (length visualizations - 4)
                   @ '' additional visualizations*\<newline>''
              else append_bullets visualizations header))"

definition add_learning_outcomes :: "notebook_info \<Rightarrow> string \<Rightarrow> string" where
  "add_learning_outcomes info header =
     (case learning_outcomes info of
        None \<Rightarrow> header
      | Some outcomes \<Rightarrow>
          (let header = header @ ''\<newline>### '' @ [CHR 0xF0, CHR 0x9F, CHR 0x8E, CHR 0x93]
                 @ '' Learning Outcomes ('' @ str_nat (length outcomes) @ '' total)\<newline>''
           in if length outcomes > 3
              then append_bullets (take 3 outcomes) header
                   @ ''- *...and '' @ str_nat (length outcomes - 3) @ '' additional outcomes*\<newline>''
              else append_bullets outcomes header))"

subsection \<open>Fixed blocks and the Data Provenance rows\<close>

definition version_history_to_data_provenance :: string where
  "version_history_to_data_provenance = concat
  [''\<newline>'',
   ''---\<newline>'',
   ''\<newline>'',
   ''## Version History\<newline>'',
   ''| Version | Date | Notes |\<newline>'',
   ''|---------|------|-------|\<newline>'',
   ''| v1.3 | 2025-10-02 | Enhanced professional formatting, comprehensive documentation, interactive visualizations |\<newline>'',
   ''| v1.2 | 2024-09-15 | Updated analysis methods, improved data generation algorithms |\<newline>'',
   ''| v1.0 | 2024-06-10 | Initial release with core analytical framework |\<newline>'',
   ''\<newline>'',
   ''---\<newline>'',
   ''\<newline>'',
   ''## Environment Dependencies\<newline>'',
   ''- **Python:** 3.8+\<newline>'',
   ''- **Core Libraries:** pandas 2.0+, numpy 1.24+, scikit-learn 1.3+\<newline>'',
   ''- **Visualization:** plotly 5.0+, matplotlib 3.7+\<newline>'',
   ''- **Statistical:** scipy 1.10+, statsmodels 0.14+\<newline>'',
   ''- **Development:** jupyter-lab 4.0+, ipywidgets 8.0+\<newline>'',
   ''\<newline>'',
   ''> **Reproducibility Note:** Use requirements.txt or environment.yml for exact dependency matching.\<newline>'',
   ''\<newline>'',
   ''---\<newline>'',
   ''\<newline>'',
   ''## Data Provenance\<newline>'',
   ''| Dataset | Source | License | Notes |\<newline>'',
   ''|---------|--------|---------|-------|\<newline>'',
   ''| Synthetic Data | Generated in-notebook | MIT | Custom algorithms for realistic simulation |\<newline>'',
   ''| Statistical Distributions | NumPy/SciPy | BSD-3-Clause | Standard library implementations |\<newline>'',
   ''| ML Algorithms | Scikit-learn | BSD-3-Clause | Industry-standard implementations |\<newline>'',
   ''| Visualization Schemas | Plotly | MIT | Interactive dashboard frameworks |\<newline>'']"

definition add_technical_features :: "notebook_info \<Rightarrow> string \<Rightarrow> string" where
  "add_technical_features info header =
     (case technical_features info of
        None \<Rightarrow> header
      | Some features \<Rightarrow>
          (if length features > 3
           then header @ ''| Technical Features | Implementation | '' @ str_nat (length features)
                  @ '' | '' @ join '', '' (take 3 features) @ '', ... |\<newline>''
           else header @ ''| Technical Features | Implementation | '' @ str_nat (length features)
                  @ '' | '' @ join '', '' features @ '' |\<newline>''))"

definition add_evaluation_methods :: "notebook_info \<Rightarrow> string \<Rightarrow> string" where
  "add_evaluation_methods info header =
     (case evaluation_methods info of
        None \<Rightarrow> header
      | Some methods \<Rightarrow>
          (if length methods > 3
           then header @ ''| Evaluation Methods | Statistical/ML Metrics | '' @ str_nat (length methods)
                  @ '' | '' @ join '', '' (take 3 methods) @ '', ... |\<newline>''
           else header @ ''| Evaluation Methods | Statistical/ML Metrics | '' @ str_nat (length methods)
                  @ '' | '' @ join '', '' methods @ '' |\<newline>''))"

subsection \<open>Execution Provenance Logs\<close>

definition execution_provenance_heading :: string where
  "execution_provenance_heading = concat
  [''\<newline>'',
   ''---\<newline>'',
   ''\<newline>'',
   ''## Execution Provenance Logs\<newline>'']"

text \<open>
  The seven lines of the block: the creation date and the identifier, then the fixed
  environment lines and the three lines that read \<open>self.execution_metadata\<close>, the
  dictionary stored on the instance by \<open>__init__\<close>.
\<close>

definition execution_environment_lines :: "generator \<Rightarrow> string" where
  "execution_environment_lines self = concat
     [''- **Execution Environment:** Jupyter Lab / VS Code\<newline>'',
      ''- **Computational Requirements:** Standard laptop/workstation (2GB+ RAM recommended)\<newline>'',
      ''- **Current Execution:** '', execution_timestamp (execution_metadata self), ''\<newline>'',
      ''- **Platform:** '', platform (execution_metadata self), ''\<newline>'',
      ''- **Python Version:** '', python_version (execution_metadata self), ''\<newline>'']"

definition execution_provenance_lines ::
  "generator \<Rightarrow> notebook_info \<Rightarrow> environment \<Rightarrow> string \<Rightarrow> string" where
  "execution_provenance_lines self info env nid =
     concat
       [''- **Created:** '', dict_get (date info) (now_date env), ''\<newline>'',
        ''- **Notebook ID:** '', nid, ''\<newline>'']
     @ execution_environment_lines self"

subsection \<open>Disclaimer, industry sectors and prerequisites\<close>

definition disclaimer_block :: string where
  "disclaimer_block = concat
  [''\<newline>'',
   ''> **Auto-tracking:** Execution metadata can be programmatically captured for reproducibility.\<newline>'',
   ''\<newline>'',
   ''---\<newline>'',
   ''\<newline>'',
   ''## Disclaimer & Responsible Use\<newline>'',
   ''This notebook is provided '' @ [CHR 0x22] @ ''as-is'' @ [CHR 0x22] @ '' for educational, research, and professional development purposes. Users assume full responsibility for any results, applications, or decisions derived from this analysis.\<newline>'',
   ''\<newline>'',
   ''**Professional Standards:**\<newline>'',
   ''- Validate all results against domain expertise and additional data sources\<newline>'',
   ''- Respect licensing and attribution requirements for all dependencies\<newline>'',
   ''- Follow ethical guidelines for data analysis and algorithmic decision-making\<newline>'',
   ''- Credit all methodological sources and derivative frameworks appropriately\<newline>'',
   ''\<newline>'',
   ''**Academic & Commercial Use:**\<newline>'',
   ''- Permitted under MIT license with proper attribution\<newline>'',
   ''- Suitable for educational curriculum and professional training\<newline>'',
   ''- Appropriate for commercial adaptation with citation requirements\<newline>'',
   ''- Recommended for reproducible research and transparent analytics\<newline>'']"

text \<open>
  \<open>any_term_in terms app\<close> is \<open>any(term in app.lower() for term in terms)\<close>.
  \<open>add_sectors\<close> is one pass of the loop body over an application: five independent
  tests, each adding its sector to the set.
\<close>

definition any_term_in :: "string list \<Rightarrow> string \<Rightarrow> bool" where
  "any_term_in terms app = list_ex (\<lambda>term. str_in term (lower app)) terms"

definition add_sectors :: "string \<Rightarrow> string set \<Rightarrow> string set" where
  "add_sectors app sectors =
     (let sectors =
            (if any_term_in [''financial'', ''credit'', ''fraud'', ''banking''] app
             then insert ''Financial Services'' sectors else sectors);
          sectors =
            (if any_term_in [''customer'', ''marketing'', ''sales'', ''retail''] app
             then insert ''Marketing & Sales'' sectors else sectors);
          sectors =
            (if any_term_in [''manufacturing'', ''quality'', ''production''] app
             then insert ''Manufacturing'' sectors else sectors);
          sectors =
            (if any_term_in [''healthcare'', ''medical'', ''clinical''] app
             then insert ''Healthcare'' sectors else sectors);
          sectors =
            (if any_term_in [''network'', ''security'', ''cyber''] app
             then insert ''Cybersecurity'' sectors else sectors)
      in sectors)"

definition classify_sectors :: "string list \<Rightarrow> string set" where
  "classify_sectors applications = fold add_sectors applications {}"

definition add_industry_applications :: "notebook_info \<Rightarrow> string \<Rightarrow> string" where
  "add_industry_applications info header =
     (case business_applications info of
        None \<Rightarrow> header
      | Some applications \<Rightarrow>
          (let header = header @ ''\<newline>**Industry Applications:**\<newline>'';
               sectors = classify_sectors applications
           in if sectors \<noteq> {}
              then header @ ''- Relevant sectors: '' @ join '', '' (sorted_list_of_set sectors)
                     @ ''\<newline>''
              else header
                     @ ''- Cross-industry applications across multiple business domains\<newline>''))"

text \<open>The prerequisite chain on a title: \<open>if\<close>/\<open>elif\<close> in the source's order.\<close>

definition resolve_prerequisites :: "string \<Rightarrow> string" where
  "resolve_prerequisites t =
     (let title_lower = lower t
      in if str_in ''tier 1'' title_lower \<or> str_in ''descriptive'' title_lower
         then ''Basic statistics, Excel proficiency, curiosity about data''
         else if str_in ''tier 2'' title_lower \<or> str_in ''regression'' title_lower
         then ''Tier 1 completion, basic linear algebra, introductory statistics''
         else if str_in ''tier 3'' title_lower \<or> str_in ''time series'' title_lower
         then ''Tier 2 completion, time series concepts, intermediate statistics''
         else if str_in ''tier 4'' title_lower \<or> str_in ''unsupervised'' title_lower
         then ''Tier 3 completion, linear algebra, unsupervised learning basics''
         else if str_in ''tier 5'' title_lower \<or> str_in ''ensemble'' title_lower
         then ''Tier 4 completion, ensemble methods understanding, advanced ML concepts''
         else if str_in ''tier 6'' title_lower \<or> str_in ''advanced'' title_lower
         then ''Tier 5 completion, advanced statistics, domain expertise in target application''
         else ''Appropriate mathematical background for the analytical complexity level'')"

definition add_prerequisites :: "notebook_info \<Rightarrow> string \<Rightarrow> string" where
  "add_prerequisites info header =
     header @ ''\<newline>**Recommended Prerequisites:**\<newline>- ''
       @ resolve_prerequisites (dict_get (title info) []) @ ''\<newline>''"

subsection \<open>Assembly\<close>

text \<open>Everything that is appended to the opening template, in the source's order.\<close>

definition finish_header ::
  "generator \<Rightarrow> notebook_info \<Rightarrow> environment \<Rightarrow> string \<Rightarrow> string \<Rightarrow> string" where
  "finish_header self info env nid header =
     (let header = add_notebook_scope info header;
          header = add_business_applications info header;
          header = add_models_implemented info header;
          header = add_key_visualizations info header;
          header = add_learning_outcomes info header;
          header = header @ version_history_to_data_provenance;
          header = add_technical_features info header;
          header = add_evaluation_methods info header;
          header = header @ execution_provenance_heading;
          header = header @ execution_provenance_lines self info env nid;
          header = header @ disclaimer_block;
          header = add_industry_applications info header;
          header = add_prerequisites info header;
          header = header @ ''\<newline>---\<newline>\<newline>\<newline>''
      in header)"

text \<open>
  The body of the \<open>try\<close> up to the finished text: \<open>Inl e\<close> is the exception that the
  handler receives. The identifier is resolved once, before the opening template, and
  the same value is handed to every later use.
\<close>

definition assemble :: "generator \<Rightarrow> environment \<Rightarrow> string option \<Rightarrow> error + string" where
  "assemble self env notebook_key =
     (let info = select_notebook_info (registry self) env notebook_key
      in bind_err
           (case repository (registry self) of
              None \<Rightarrow> Inl (KeyError ''repository'')
            | Some repo \<Rightarrow> Inr repo)
           (\<lambda>repo.
              let nid = dict_get (notebook_id info) (uuid4 env)
              in bind_err (opening_block repo info env nid)
                   (\<lambda>header. Inr (finish_header self info env nid header))))"

text \<open>What \<open>display_immediately\<close> writes after the document has been built.\<close>

definition display_report :: "generator \<Rightarrow> string option \<Rightarrow> string \<Rightarrow> out_event list" where
  "display_report self notebook_key header =
     [Display header,
      Print ([CHR 0xE2, CHR 0x9C, CHR 0x85] @ '' ENHANCED PROFESSIONAL HEADER GENERATED!''),
      Print ([CHR 0xF0, CHR 0x9F, CHR 0x93, CHR 0x9D]
             @ '' Comprehensive learning information integrated into existing format''),
      Print ([CHR 0xF0, CHR 0x9F, CHR 0x93, CHR 0x84] @ '' Notebook: ''
             @ (case notebook_key of
                  None \<Rightarrow> ''Auto-detected''
                | Some k \<Rightarrow> if k \<noteq> [] then k else ''Auto-detected''))]
     @ (case notebook_key of
          None \<Rightarrow> []
        | Some k \<Rightarrow>
            (case get_notebooks (registry self) k of
               None \<Rightarrow> []
             | Some info \<Rightarrow>
                 (case models_implemented info of
                    None \<Rightarrow> []
                  | Some models \<Rightarrow>
                      [Print ([CHR 0xF0, CHR 0x9F, CHR 0xA4, CHR 0x96] @ '' Models: ''
                              @ str_nat (length models) @ '' implemented'')])
                 @ (case business_applications info of
                      None \<Rightarrow> []
                    | Some applications \<Rightarrow>
                        [Print ([CHR 0xF0, CHR 0x9F, CHR 0x8F, CHR 0xA2] @ '' Applications: ''
                                @ str_nat (length applications) @ '' business cases'')])
                 @ (case learning_outcomes info of
                      None \<Rightarrow> []
                    | Some outcomes \<Rightarrow>
                        [Print ([CHR 0xF0, CHR 0x9F, CHR 0x8E, CHR 0x93] @ '' Learning Outcomes: ''
                                @ str_nat (length outcomes) @ '' objectives'')])))"

definition error_msg :: "error \<Rightarrow> string" where
  "error_msg e =
     [CHR 0xE2, CHR 0x9D, CHR 0x8C] @ '' Error generating enhanced header: '' @ str_error e"

text \<open>
  The method: the returned document is the text of the Markdown object; the second
  component is what the call displayed and printed.
\<close>

definition generate_enhanced_header ::
  "generator \<Rightarrow> environment \<Rightarrow> string option \<Rightarrow> bool \<Rightarrow> string \<times> out_event list" where
  "generate_enhanced_header self env notebook_key display_immediately =
     (case assemble self env notebook_key of
        Inr header \<Rightarrow>
          (header, if display_immediately then display_report self notebook_key header else [])
      | Inl e \<Rightarrow>
          (''# Notebook Header\<newline>\<newline>'' @ error_msg e, [Print (error_msg e)]))"

text \<open>
  The module-level convenience function (and \<open>insert_notebook_header\<close>, which only calls
  it): a new generator is constructed for every call, then asked to render and display.
\<close>

definition insert_notebook_header ::
  "(string \<Rightarrow> string + registry_data) \<Rightarrow> registry_file \<Rightarrow> environment \<Rightarrow> environment
     \<Rightarrow> string option \<Rightarrow> string \<times> out_event list" where
  "insert_notebook_header json_load file env_init env_call notebook_key =
     (let (generator, out) = init json_load file env_init;
          (doc, out') = generate_enhanced_header generator env_call notebook_key True
      in (doc, out @ out'))"

section \<open>Descriptions taken from the specification\<close>

text \<open>
  The prerequisite resolver as the specification words it: an ordered table of substring
  pairs, searched from the top against the lower-cased title, first match winning, with
  a generic sentence when nothing matches.
\<close>

definition generic_prerequisites :: string where
  "generic_prerequisites =
     ''Appropriate mathematical background for the analytical complexity level''"

definition prerequisite_table :: "((string \<times> string) \<times> string) list" where
  "prerequisite_table =
     [((''tier 1'', ''descriptive''),
       ''Basic statistics, Excel proficiency, curiosity about data''),
      ((''tier 2'', ''regression''),
       ''Tier 1 completion, basic linear algebra, introductory statistics''),
      ((''tier 3'', ''time series''),
       ''Tier 2 completion, time series concepts, intermediate statistics''),
      ((''tier 4'', ''unsupervised''),
       ''Tier 3 completion, linear algebra, unsupervised learning basics''),
      ((''tier 5'', ''ensemble''),
       ''Tier 4 completion, ensemble methods understanding, advanced ML concepts''),
      ((''tier 6'', ''advanced''),
       ''Tier 5 completion, advanced statistics, domain expertise in target application'')]"

definition resolve_spec :: "string \<Rightarrow> string" where
  "resolve_spec t =
     (case find (\<lambda>((a, b), s). str_in a (lower t) \<or> str_in b (lower t)) prerequisite_table of
        Some (p, s) \<Rightarrow> s
      | None \<Rightarrow> generic_prerequisites)"











section \<open>Example inputs\<close>

text \<open>A parser on which every file fails, and one that yields a registry without a repository.\<close>

definition failing_json_load :: "string \<Rightarrow> string + registry_data" where
  "failing_json_load s = Inl ''Expecting value: line 1 column 1 (char 0)''"

definition example_info :: notebook_info where
  "example_info =
     \<lparr> title = Some ''Tier 2: Linear Regression'',
       date = Some ''2025-01-03'',
       version = Some ''v1.3'',
       notebook_id = Some ''QAS-T2-LINREG-001'',
       notebook_scope = Some ''Linear models for prediction and inference'',
       business_applications = Some
         [''Credit risk scoring'', ''Sales forecasting'', ''Customer churn analysis'',
          ''Quality control'', ''Clinical trial analysis'', ''Network load planning'',
          ''Inventory planning''],
       models_implemented = Some [''Ordinary least squares'', ''Ridge regression''],
       key_visualizations = Some
         [''Residual plot'', ''QQ plot'', ''Coefficient chart'', ''Learning curve'',
          ''Correlation heatmap''],
       learning_outcomes = Some
         [''Fit a linear model'', ''Read the diagnostics'', ''Report uncertainty''],
       technical_features = None,
       evaluation_methods = Some [''RMSE'', ''MAE'', ''R2'', ''AIC''],
       format = None \<rparr>"

text \<open>An entry whose list fields are present but empty, and which has no identifier.\<close>

definition empty_lists_info :: notebook_info where
  "empty_lists_info =
     \<lparr> title = Some ''Scratch Notebook'',
       date = Some ''2025-02-14'',
       version = None,
       notebook_id = None,
       notebook_scope = None,
       business_applications = Some [],
       models_implemented = None,
       key_visualizations = None,
       learning_outcomes = None,
       technical_features = None,
       evaluation_methods = None,
       format = None \<rparr>"

definition example_registry :: registry_data where
  "example_registry =
     \<lparr> repository = repository get_fallback_registry,
       notebooks = Some
         [''Tier2_LinearRegression.ipynb'' \<mapsto> example_info,
          ''Scratch.ipynb'' \<mapsto> empty_lists_info] \<rparr>"


definition env_morning :: environment where
  "env_morning =
     \<lparr> now_timestamp = ''2025-03-01 09:00:00'',
       now_date = ''2025-03-01'',
       platform_platform = ''Linux-6.1.0-x86_64-with-glibc2.36'',
       version_info = (3, 11, 4),
       uuid4 = ''3f2b8c1e-9a4d-4e6f-8b7a-0c1d2e3f4a5b'' \<rparr>"

definition env_evening :: environment where
  "env_evening =
     \<lparr> now_timestamp = ''2025-03-01 21:30:15'',
       now_date = ''2025-03-01'',
       platform_platform = ''Linux-6.1.0-x86_64-with-glibc2.36'',
       version_info = (3, 11, 4),
       uuid4 = ''7d9e0f1a-2b3c-4d5e-9f60-718293a4b5c6'' \<rparr>"

definition example_generator :: generator where
  "example_generator =
     \<lparr> registry = example_registry,
       execution_metadata =
         \<lparr> execution_timestamp = ''2025-03-01 09:00:00'',
           platform = ''Linux-6.1.0-x86_64-with-glibc2.36'',
           python_version = ''3.11.4'' \<rparr> \<rparr>"


section \<open>Properties\<close>

subsection \<open>Auxiliary facts about text\<close>






subsection \<open>Every assembly step only appends\<close>

lemma append_bullets_eq:
  "append_bullets xs header = header @ concat (map (\<lambda>x. ''- '' @ x @ ''\<newline>'') xs)"
  by (induction xs arbitrary: header) simp_all

lemma add_notebook_scope_append:
  "add_notebook_scope info h = h @ add_notebook_scope info []"
  by (simp add: add_notebook_scope_def split: option.splits)

lemma add_business_applications_append:
  "add_business_applications info h = h @ add_business_applications info []"
  by (simp add: add_business_applications_def Let_def append_bullets_eq split: option.splits)

lemma add_models_implemented_append:
  "add_models_implemented info h = h @ add_models_implemented info []"
  by (simp add: add_models_implemented_def Let_def append_bullets_eq split: option.splits)

lemma add_key_visualizations_append:
  "add_key_visualizations info h = h @ add_key_visualizations info []"
  by (simp add: add_key_visualizations_def Let_def append_bullets_eq split: option.splits)

lemma add_learning_outcomes_append:
  "add_learning_outcomes info h = h @ add_learning_outcomes info []"
  by (simp add: add_learning_outcomes_def Let_def append_bullets_eq split: option.splits)

lemma add_technical_features_append:
  "add_technical_features info h = h @ add_technical_features info []"
  by (simp add: add_technical_features_def split: option.splits)

lemma add_evaluation_methods_append:
  "add_evaluation_methods info h = h @ add_evaluation_methods info []"
  by (simp add: add_evaluation_methods_def split: option.splits)

lemma add_industry_applications_append:
  "add_industry_applications info h = h @ add_industry_applications info []"
  by (simp add: add_industry_applications_def Let_def split: option.splits)

lemma add_prerequisites_append:
  "add_prerequisites info h = h @ add_prerequisites info []"
  by (simp add: add_prerequisites_def)

lemma finish_header_eq:
  "finish_header self info env nid h =
     h @ add_notebook_scope info [] @ add_business_applications info []
       @ add_models_implemented info [] @ add_key_visualizations info []
       @ add_learning_outcomes info [] @ version_history_to_data_provenance
       @ add_technical_features info [] @ add_evaluation_methods info []
       @ execution_provenance_heading @ execution_provenance_lines self info env nid
       @ disclaimer_block @ add_industry_applications info [] @ add_prerequisites info []
       @ ''\<newline>---\<newline>\<newline>\<newline>''"
  unfolding finish_header_def Let_def
  apply (subst add_prerequisites_append)
  apply (subst add_industry_applications_append)
  apply (subst add_evaluation_methods_append)
  apply (subst add_technical_features_append)
  apply (subst add_learning_outcomes_append)
  apply (subst add_key_visualizations_append)
  apply (subst add_models_implemented_append)
  apply (subst add_business_applications_append)
  apply (subst add_notebook_scope_append)
  apply (simp only: append_assoc)
  done

subsection \<open>Prerequisite resolver\<close>

text \<open>
  C1, as stated, fails at its own example: the title \<open>Tier3_TimeSeries\<close> lower-cases to
  \<open>tier3_timeseries\<close>, which contains neither \<open>tier 3\<close> nor \<open>time series\<close> (both
  keywords have a space), so the resolver does not return the Tier-3 sentence there.
\<close>

theorem prerequisite_tier3_key_counterexample:
  "resolve_prerequisites ''Tier3_TimeSeries''
     \<noteq> ''Tier 2 completion, time series concepts, intermediate statistics''"
  by code_simp

text \<open>
  C1, amended: the resolver lower-cases the title and searches the six substring pairs in
  the stated priority order, first match winning, with the generic sentence when none
  matches. For the titles \<open>Tier3_TimeSeries\<close> and \<open>Unknown Topic\<close> it returns the generic
  fallback sentence; a title that spells the keyword with its space, such as
  \<open>Tier 3: Time Series\<close>, gets the Tier-3 sentence.
\<close>

theorem prerequisite_resolution:
  "resolve_prerequisites t = resolve_spec t
   \<and> resolve_prerequisites ''Tier3_TimeSeries'' = generic_prerequisites
   \<and> resolve_prerequisites ''Unknown Topic'' = generic_prerequisites
   \<and> resolve_prerequisites ''Tier 3: Time Series''
       = ''Tier 2 completion, time series concepts, intermediate statistics''"
proof (intro conjI)
  show "resolve_prerequisites t = resolve_spec t"
    unfolding resolve_prerequisites_def resolve_spec_def prerequisite_table_def
      generic_prerequisites_def Let_def
    by (simp del: str_in.simps)
  show "resolve_prerequisites ''Tier3_TimeSeries'' = generic_prerequisites"
    unfolding generic_prerequisites_def by code_simp
  show "resolve_prerequisites ''Unknown Topic'' = generic_prerequisites"
    unfolding generic_prerequisites_def by code_simp
  show "resolve_prerequisites ''Tier 3: Time Series''
          = ''Tier 2 completion, time series concepts, intermediate statistics''"
    by code_simp
qed

text \<open>
  Priority at work: \<open>Advanced Regression\<close> matches the second pair and the sixth, and
  the second wins.
\<close>

theorem prerequisite_resolution_witness:
  "resolve_prerequisites ''Advanced Regression''
     = ''Tier 1 completion, basic linear algebra, introductory statistics''"
proof -
  have "resolve_spec ''Advanced Regression''
          = ''Tier 1 completion, basic linear algebra, introductory statistics''"
    by code_simp
  with prerequisite_resolution [of "''Advanced Regression''"] show ?thesis
    by simp
qed

subsection \<open>List truncation\<close>






subsection \<open>Success and failure of the assembly\<close>

lemma assemble_success:
  assumes "repository (registry self) = Some repo"
    and "repo ''author'' = Some author" and "repo ''affiliation'' = Some affiliation"
    and "repo ''license'' = Some license" and "repo ''name'' = Some name"
  shows "assemble self env notebook_key =
           Inr (finish_header self (select_notebook_info (registry self) env notebook_key) env
                  (dict_get (notebook_id (select_notebook_info (registry self) env notebook_key))
                     (uuid4 env))
                  (opening_text author affiliation license name
                     (select_notebook_info (registry self) env notebook_key) env
                     (dict_get (notebook_id (select_notebook_info (registry self) env notebook_key))
                        (uuid4 env))))"
  using assms
  by (simp add: assemble_def Let_def bind_err_def opening_block_def subscript_def)

lemma assemble_InrD:
  assumes "assemble self env notebook_key = Inr doc"
  shows "\<exists>repo author affiliation license name.
           repository (registry self) = Some repo
           \<and> repo ''author'' = Some author \<and> repo ''affiliation'' = Some affiliation
           \<and> repo ''license'' = Some license \<and> repo ''name'' = Some name
           \<and> doc = finish_header self (select_notebook_info (registry self) env notebook_key) env
                  (dict_get (notebook_id (select_notebook_info (registry self) env notebook_key))
                     (uuid4 env))
                  (opening_text author affiliation license name
                     (select_notebook_info (registry self) env notebook_key) env
                     (dict_get (notebook_id (select_notebook_info (registry self) env notebook_key))
                        (uuid4 env)))"
  using assms
  by (auto simp: assemble_def Let_def bind_err_def opening_block_def subscript_def
      split: option.splits sum.splits)

lemma fallback_repository:
  "repository get_fallback_registry = Some
     [''name'' \<mapsto> ''Quipu Analytics Suite'',
      ''author'' \<mapsto> ''Bryson Charles de los Reyes, PHD'',
      ''affiliation'' \<mapsto> ''Universidad Cat'' @ [CHR 0xC3, CHR 0xB3] @ ''lica de Santa Mar'' @ [CHR 0xC3, CHR 0xAD] @ ''a'',
      ''license'' \<mapsto> ''MIT'',
      ''version'' \<mapsto> ''v1.3'']"
  by (simp add: get_fallback_registry_def)

lemma example_generator_success:
  "assemble example_generator env notebook_key =
     Inr (finish_header example_generator (select_notebook_info example_registry env notebook_key) env
            (dict_get (notebook_id (select_notebook_info example_registry env notebook_key))
               (uuid4 env))
            (opening_text ''Bryson Charles de los Reyes, PHD''
               (''Universidad Cat'' @ [CHR 0xC3, CHR 0xB3] @ ''lica de Santa Mar'' @ [CHR 0xC3, CHR 0xAD] @ ''a'')
               ''MIT'' ''Quipu Analytics Suite''
               (select_notebook_info example_registry env notebook_key) env
               (dict_get (notebook_id (select_notebook_info example_registry env notebook_key))
                  (uuid4 env))))"
proof -
  have r: "registry example_generator = example_registry"
    by (simp add: example_generator_def)
  show ?thesis
    using assemble_success [of example_generator _ "''Bryson Charles de los Reyes, PHD''"
        "''Universidad Cat'' @ [CHR 0xC3, CHR 0xB3] @ ''lica de Santa Mar'' @ [CHR 0xC3, CHR 0xAD] @ ''a''"
        "''MIT''" "''Quipu Analytics Suite''" env notebook_key]
    by (simp add: r example_registry_def fallback_repository)
qed

subsection \<open>Conditional subsections\<close>




subsection \<open>Failure handling\<close>




subsection \<open>Registry loading\<close>

text \<open>
  C7, as stated, fails for a missing file: that branch returns the built-in registry
  without printing anything. Only an exception (an unreadable file, a parse failure)
  reaches the handler that prints the warning.
\<close>

theorem missing_file_warning_counterexample:
  "load_registry failing_json_load Missing = (get_fallback_registry, [])"
  by (simp add: load_registry_def)

lemma fallback_render:
  assumes "registry self = get_fallback_registry"
  shows "\<exists>rest.
           generate_enhanced_header self env notebook_key False
           = (''# Analytics Notebook\<newline>\<newline>---\<newline>\<newline>''
              @ ''**Author:** Bryson Charles de los Reyes, PHD\<newline>''
              @ ''**Affiliation:** Universidad Cat'' @ [CHR 0xC3, CHR 0xB3]
              @ ''lica de Santa Mar'' @ [CHR 0xC3, CHR 0xAD] @ ''a\<newline>'' @ rest, [])"
proof -
  have sel: "select_notebook_info get_fallback_registry env notebook_key
               = unknown_notebook_info env"
    by (simp add: select_notebook_info_def get_notebooks_def get_fallback_registry_def
        split: option.splits)
  have t: "title (unknown_notebook_info env) = Some ''Analytics Notebook''"
    by (simp add: unknown_notebook_info_def)
  have ok: "assemble self env notebook_key =
     Inr (finish_header self (unknown_notebook_info env) env
            (dict_get (notebook_id (unknown_notebook_info env)) (uuid4 env))
            (opening_text ''Bryson Charles de los Reyes, PHD''
               (''Universidad Cat'' @ [CHR 0xC3, CHR 0xB3] @ ''lica de Santa Mar'' @ [CHR 0xC3, CHR 0xAD] @ ''a'')
               ''MIT'' ''Quipu Analytics Suite'' (unknown_notebook_info env) env
               (dict_get (notebook_id (unknown_notebook_info env)) (uuid4 env))))"
    using assemble_success [of self _ "''Bryson Charles de los Reyes, PHD''"
        "''Universidad Cat'' @ [CHR 0xC3, CHR 0xB3] @ ''lica de Santa Mar'' @ [CHR 0xC3, CHR 0xAD] @ ''a''"
        "''MIT''" "''Quipu Analytics Suite''" env notebook_key]
    by (simp add: assms fallback_repository sel)
  show ?thesis
    unfolding generate_enhanced_header_def ok finish_header_eq
    by (simp add: opening_text_def title_line_def authorship_block_def t dict_get_def)
qed

text \<open>
  C7, amended: if the registry file is missing, cannot be read or fails to parse, the
  loader returns the built-in default registry, with \<open>repository\<close> populated and an empty
  \<open>notebooks\<close> mapping, and never raises. A warning is printed when reading or parsing
  raised; for a file that is merely missing nothing is printed. A generator holding that
  registry renders every key successfully, and the document names the fallback author
  and affiliation.
\<close>

theorem load_failure_fallback:
  assumes "file = Missing \<or> (\<exists>e. file = Unreadable e)
           \<or> (\<exists>s e. file = Readable s \<and> json_load s = Inl e)"
  shows "fst (load_registry json_load file) = get_fallback_registry
   \<and> (\<exists>repo. repository get_fallback_registry = Some repo
         \<and> repo ''name'' = Some ''Quipu Analytics Suite''
         \<and> repo ''author'' = Some ''Bryson Charles de los Reyes, PHD''
         \<and> repo ''affiliation'' = Some (''Universidad Cat'' @ [CHR 0xC3, CHR 0xB3]
               @ ''lica de Santa Mar'' @ [CHR 0xC3, CHR 0xAD] @ ''a'')
         \<and> repo ''license'' = Some ''MIT'' \<and> repo ''version'' = Some ''v1.3'')
   \<and> notebooks get_fallback_registry = Some Map.empty
   \<and> snd (load_registry json_load file)
       = (case file of
            Missing \<Rightarrow> []
          | Unreadable e \<Rightarrow> [Print (load_warning e)]
          | Readable s \<Rightarrow>
              (case json_load s of Inl e \<Rightarrow> [Print (load_warning e)] | Inr r \<Rightarrow> []))
   \<and> registry (fst (init json_load file env0)) = get_fallback_registry
   \<and> (\<exists>rest.
         generate_enhanced_header (fst (init json_load file env0)) env notebook_key False
         = (''# Analytics Notebook\<newline>\<newline>---\<newline>\<newline>''
            @ ''**Author:** Bryson Charles de los Reyes, PHD\<newline>''
            @ ''**Affiliation:** Universidad Cat'' @ [CHR 0xC3, CHR 0xB3]
            @ ''lica de Santa Mar'' @ [CHR 0xC3, CHR 0xAD] @ ''a\<newline>'' @ rest, []))"
proof -
  have l: "fst (load_registry json_load file) = get_fallback_registry"
    using assms by (auto simp: load_registry_def)
  have w: "snd (load_registry json_load file)
       = (case file of
            Missing \<Rightarrow> []
          | Unreadable e \<Rightarrow> [Print (load_warning e)]
          | Readable s \<Rightarrow>
              (case json_load s of Inl e \<Rightarrow> [Print (load_warning e)] | Inr r \<Rightarrow> []))"
    by (simp add: load_registry_def split: registry_file.splits sum.splits)
  have r: "registry (fst (init json_load file env0)) = get_fallback_registry"
    using l by (simp add: init_def Let_def case_prod_beta)
  have f: "\<exists>repo. repository get_fallback_registry = Some repo
         \<and> repo ''name'' = Some ''Quipu Analytics Suite''
         \<and> repo ''author'' = Some ''Bryson Charles de los Reyes, PHD''
         \<and> repo ''affiliation'' = Some (''Universidad Cat'' @ [CHR 0xC3, CHR 0xB3]
               @ ''lica de Santa Mar'' @ [CHR 0xC3, CHR 0xAD] @ ''a'')
         \<and> repo ''license'' = Some ''MIT'' \<and> repo ''version'' = Some ''v1.3''"
    by (simp add: get_fallback_registry_def)
  have n: "notebooks get_fallback_registry = Some Map.empty"
    by (simp add: get_fallback_registry_def)
  from l f n w r fallback_render [OF r] show ?thesis
    by blast
qed

text \<open>A file that does not parse: the warning carries the parser's message.\<close>

theorem load_failure_fallback_witness:
  "load_registry failing_json_load (Readable ''{ not json'')
     = (get_fallback_registry,
        [Print (load_warning ''Expecting value: line 1 column 1 (char 0)'')])
   \<and> (\<exists>rest.
         generate_enhanced_header
           (fst (init failing_json_load (Readable ''{ not json'') env_morning)) env_evening
           (Some ''Tier3_TimeSeries.ipynb'') False
         = (''# Analytics Notebook\<newline>\<newline>---\<newline>\<newline>''
            @ ''**Author:** Bryson Charles de los Reyes, PHD\<newline>''
            @ ''**Affiliation:** Universidad Cat'' @ [CHR 0xC3, CHR 0xB3]
            @ ''lica de Santa Mar'' @ [CHR 0xC3, CHR 0xAD] @ ''a\<newline>'' @ rest, []))"
proof -
  have p: "Readable ''{ not json'' = Missing \<or> (\<exists>e. Readable ''{ not json'' = Unreadable e)
           \<or> (\<exists>s e. Readable ''{ not json'' = Readable s \<and> failing_json_load s = Inl e)"
    by (simp add: failing_json_load_def)
  note inst = load_failure_fallback [OF p, of env_morning env_evening "Some ''Tier3_TimeSeries.ipynb''"]
  note l = inst [THEN conjunct1]
  note w = inst [THEN conjunct2, THEN conjunct2, THEN conjunct2, THEN conjunct1]
  note d = inst [THEN conjunct2, THEN conjunct2, THEN conjunct2, THEN conjunct2, THEN conjunct2]
  have w': "snd (load_registry failing_json_load (Readable ''{ not json''))
              = [Print (load_warning ''Expecting value: line 1 column 1 (char 0)'')]"
    unfolding w by (simp add: failing_json_load_def)
  have "load_registry failing_json_load (Readable ''{ not json'')
     = (get_fallback_registry,
        [Print (load_warning ''Expecting value: line 1 column 1 (char 0)'')])"
    using l w' by (simp add: prod_eq_iff)
  then show ?thesis
    using d by (rule conjI)
qed

subsection \<open>Sector classifier\<close>











subsection \<open>Unknown notebook keys\<close>



subsection \<open>Where the identifier and the environment enter the document\<close>

lemma authorship_block_split:
  "authorship_block author affiliation license info env nid =
     ''\<newline>---\<newline>\<newline>''
     @ ''**Author:** '' @ author @ ''\<newline>''
     @ ''**Affiliation:** '' @ affiliation @ ''\<newline>''
     @ ''**Date:** '' @ dict_get (date info) (now_date env) @ ''\<newline>''
     @ ''**Version:** '' @ dict_get (version info) ''v1.3'' @ ''\<newline>''
     @ ''**License:** '' @ license @ ''\<newline>''
     @ ''**Notebook ID:** '' @ nid @ ''\<newline>''"
  by (simp add: authorship_block_def)

lemma execution_provenance_lines_split:
  "execution_provenance_lines self info env nid =
     ''- **Created:** '' @ dict_get (date info) (now_date env) @ ''\<newline>''
     @ ''- **Notebook ID:** '' @ nid @ ''\<newline>''
     @ execution_environment_lines self"
  by (simp add: execution_provenance_lines_def)

lemma unknown_notebook_info_env:
  "now_date e1 = now_date e2 \<Longrightarrow> unknown_notebook_info e1 = unknown_notebook_info e2"
  by (simp add: unknown_notebook_info_def)

lemma select_notebook_info_env:
  "now_date e1 = now_date e2 \<Longrightarrow>
     select_notebook_info reg e1 notebook_key = select_notebook_info reg e2 notebook_key"
  unfolding select_notebook_info_def by (simp only: unknown_notebook_info_env [of e1 e2])

lemma opening_text_env:
  "now_date e1 = now_date e2 \<Longrightarrow>
     opening_text author affiliation license name info e1 nid
       = opening_text author affiliation license name info e2 nid"
  by (simp add: opening_text_def authorship_block_def citation_block_def)

lemma opening_block_env:
  "now_date e1 = now_date e2 \<Longrightarrow> opening_block repo info e1 nid = opening_block repo info e2 nid"
  unfolding opening_block_def by (simp add: opening_text_env [of e1 e2])

lemma finish_header_env:
  "now_date e1 = now_date e2 \<Longrightarrow>
     finish_header self info e1 nid h = finish_header self info e2 nid h"
  unfolding finish_header_eq by (simp add: execution_provenance_lines_def)

lemma assemble_env:
  assumes "now_date e1 = now_date e2"
    and "dict_get (notebook_id (select_notebook_info (registry self) e1 notebook_key)) (uuid4 e1)
         = dict_get (notebook_id (select_notebook_info (registry self) e1 notebook_key)) (uuid4 e2)"
  shows "assemble self e1 notebook_key = assemble self e2 notebook_key"
proof -
  note s = select_notebook_info_env [OF assms(1), of "registry self" notebook_key]
  show ?thesis
    unfolding assemble_def Let_def s [symmetric] assms(2) [symmetric]
    by (simp add: opening_block_env [OF assms(1)] finish_header_env [OF assms(1)])
qed

lemma generate_enhanced_header_env:
  assumes "now_date e1 = now_date e2"
    and "dict_get (notebook_id (select_notebook_info (registry self) e1 notebook_key)) (uuid4 e1)
         = dict_get (notebook_id (select_notebook_info (registry self) e1 notebook_key)) (uuid4 e2)"
  shows "generate_enhanced_header self e1 notebook_key d
           = generate_enhanced_header self e2 notebook_key d"
  unfolding generate_enhanced_header_def assemble_env [OF assms] by (rule refl)

lemma twice_inj:
  assumes "A @ u @ B @ u @ C = A @ v @ B @ v @ C"
  shows "u = v"
proof -
  from assms have "length (A @ u @ B @ u @ C) = length (A @ v @ B @ v @ C)"
    by (rule arg_cong)
  then have "length u = length v" by simp
  moreover from assms have "u @ (B @ u @ C) = v @ (B @ v @ C)" by simp
  ultimately show ?thesis by (simp add: append_eq_append_conv)
qed

lemma rendered_text_shape:
  "finish_header self info env nid (opening_text author affiliation license name info env nid)
   = (title_line info
      @ ''\<newline>---\<newline>\<newline>''
      @ ''**Author:** '' @ author @ ''\<newline>''
      @ ''**Affiliation:** '' @ affiliation @ ''\<newline>''
      @ ''**Date:** '' @ dict_get (date info) (now_date env) @ ''\<newline>''
      @ ''**Version:** '' @ dict_get (version info) ''v1.3'' @ ''\<newline>''
      @ ''**License:** '' @ license @ ''\<newline>''
      @ ''**Notebook ID:** '')
     @ nid
     @ (''\<newline>'' @ citation_block author affiliation name info env
        @ contributors_block author affiliation
        @ add_notebook_scope info [] @ add_business_applications info []
        @ add_models_implemented info [] @ add_key_visualizations info []
        @ add_learning_outcomes info [] @ version_history_to_data_provenance
        @ add_technical_features info [] @ add_evaluation_methods info []
        @ execution_provenance_heading
        @ ''- **Created:** '' @ dict_get (date info) (now_date env) @ ''\<newline>''
        @ ''- **Notebook ID:** '')
     @ nid
     @ (''\<newline>'' @ execution_environment_lines self
        @ disclaimer_block @ add_industry_applications info [] @ add_prerequisites info []
        @ ''\<newline>---\<newline>\<newline>\<newline>'')"
  unfolding finish_header_eq opening_text_def authorship_block_split
    execution_provenance_lines_split
  by (simp only: append_assoc)

subsection \<open>One identifier per document\<close>

text \<open>
  C10: in every rendered document the Notebook ID line of the authorship block and the
  Notebook ID line of the Execution Provenance Logs carry the same identifier: the
  entry's \<open>notebook_id\<close> when present, and otherwise the single value drawn from
  \<open>uuid.uuid4()\<close> for this call, which is used in both places.
\<close>

theorem notebook_id_consistent:
  assumes "assemble self env notebook_key = Inr doc"
    and "info = select_notebook_info (registry self) env notebook_key"
  shows "\<exists>nid author affiliation license between after.
     nid = (case notebook_id info of Some i \<Rightarrow> i | None \<Rightarrow> uuid4 env)
     \<and> doc =
         (title_line info
          @ ''\<newline>---\<newline>\<newline>''
          @ ''**Author:** '' @ author @ ''\<newline>''
          @ ''**Affiliation:** '' @ affiliation @ ''\<newline>''
          @ ''**Date:** '' @ dict_get (date info) (now_date env) @ ''\<newline>''
          @ ''**Version:** '' @ dict_get (version info) ''v1.3'' @ ''\<newline>''
          @ ''**License:** '' @ license @ ''\<newline>''
          @ ''**Notebook ID:** '') @ nid @ ''\<newline>''
         @ between
         @ (execution_provenance_heading
            @ ''- **Created:** '' @ dict_get (date info) (now_date env) @ ''\<newline>''
            @ ''- **Notebook ID:** '') @ nid @ ''\<newline>''
         @ execution_environment_lines self @ after"
proof -
  from assemble_InrD [OF assms(1)] obtain author affiliation license name where
    d: "doc = finish_header self info env (dict_get (notebook_id info) (uuid4 env))
              (opening_text author affiliation license name info env
                 (dict_get (notebook_id info) (uuid4 env)))"
    unfolding assms(2) by blast
  have n: "dict_get (notebook_id info) (uuid4 env)
             = (case notebook_id info of Some i \<Rightarrow> i | None \<Rightarrow> uuid4 env)"
    by (simp add: dict_get_def split: option.splits)
  show ?thesis
    apply (rule exI [of _ "dict_get (notebook_id info) (uuid4 env)"])
    apply (rule exI [of _ author])
    apply (rule exI [of _ affiliation])
    apply (rule exI [of _ license])
    apply (rule exI [of _ "citation_block author affiliation name info env
        @ contributors_block author affiliation
        @ add_notebook_scope info [] @ add_business_applications info []
        @ add_models_implemented info [] @ add_key_visualizations info []
        @ add_learning_outcomes info [] @ version_history_to_data_provenance
        @ add_technical_features info [] @ add_evaluation_methods info []"])
    apply (rule exI [of _ "disclaimer_block @ add_industry_applications info []
        @ add_prerequisites info [] @ ''\<newline>---\<newline>\<newline>\<newline>''"])
    apply (rule conjI)
     apply (rule n)
    unfolding d rendered_text_shape
    apply (simp only: append_assoc)
    done
qed

text \<open>
  The entry \<open>Scratch.ipynb\<close> has no identifier: both lines show the value drawn in the
  morning environment.
\<close>

theorem notebook_id_consistent_witness:
  "\<exists>before between after.
     fst (generate_enhanced_header example_generator env_morning (Some ''Scratch.ipynb'') False)
     = before @ ''**Notebook ID:** 3f2b8c1e-9a4d-4e6f-8b7a-0c1d2e3f4a5b\<newline>''
       @ between @ ''- **Notebook ID:** 3f2b8c1e-9a4d-4e6f-8b7a-0c1d2e3f4a5b\<newline>''
       @ after"
proof -
  have ok: "assemble example_generator env_morning (Some ''Scratch.ipynb'')
     = Inr (fst (generate_enhanced_header example_generator env_morning
                   (Some ''Scratch.ipynb'') False))"
    unfolding generate_enhanced_header_def example_generator_success by simp
  have sel: "select_notebook_info (registry example_generator) env_morning
               (Some ''Scratch.ipynb'') = empty_lists_info"
    by (simp add: select_notebook_info_def get_notebooks_def example_registry_def
          example_generator_def)
  have i: "notebook_id empty_lists_info = None"
    by (simp add: empty_lists_info_def)
  have u: "uuid4 env_morning = ''3f2b8c1e-9a4d-4e6f-8b7a-0c1d2e3f4a5b''"
    by (simp add: env_morning_def)
  from notebook_id_consistent [OF ok sel [symmetric]]
  obtain author affiliation license between after where
    "fst (generate_enhanced_header example_generator env_morning (Some ''Scratch.ipynb'') False)
     = (title_line empty_lists_info
          @ ''\<newline>---\<newline>\<newline>''
          @ ''**Author:** '' @ author @ ''\<newline>''
          @ ''**Affiliation:** '' @ affiliation @ ''\<newline>''
          @ ''**Date:** '' @ dict_get (date empty_lists_info) (now_date env_morning) @ ''\<newline>''
          @ ''**Version:** '' @ dict_get (version empty_lists_info) ''v1.3'' @ ''\<newline>''
          @ ''**License:** '' @ license @ ''\<newline>''
          @ ''**Notebook ID:** '') @ ''3f2b8c1e-9a4d-4e6f-8b7a-0c1d2e3f4a5b'' @ ''\<newline>''
         @ between
         @ (execution_provenance_heading
            @ ''- **Created:** '' @ dict_get (date empty_lists_info) (now_date env_morning) @ ''\<newline>''
            @ ''- **Notebook ID:** '') @ ''3f2b8c1e-9a4d-4e6f-8b7a-0c1d2e3f4a5b'' @ ''\<newline>''
         @ execution_environment_lines example_generator @ after"
    unfolding i u option.case by blast
  then have "fst (generate_enhanced_header example_generator env_morning (Some ''Scratch.ipynb'') False)
     = (title_line empty_lists_info
          @ ''\<newline>---\<newline>\<newline>''
          @ ''**Author:** '' @ author @ ''\<newline>''
          @ ''**Affiliation:** '' @ affiliation @ ''\<newline>''
          @ ''**Date:** '' @ dict_get (date empty_lists_info) (now_date env_morning) @ ''\<newline>''
          @ ''**Version:** '' @ dict_get (version empty_lists_info) ''v1.3'' @ ''\<newline>''
          @ ''**License:** '' @ license @ ''\<newline>'')
       @ ''**Notebook ID:** 3f2b8c1e-9a4d-4e6f-8b7a-0c1d2e3f4a5b\<newline>''
       @ (between @ execution_provenance_heading
            @ ''- **Created:** '' @ dict_get (date empty_lists_info) (now_date env_morning) @ ''\<newline>'')
       @ ''- **Notebook ID:** 3f2b8c1e-9a4d-4e6f-8b7a-0c1d2e3f4a5b\<newline>''
       @ (execution_environment_lines example_generator @ after)"
    by simp
  then show ?thesis by blast
qed

subsection \<open>Determinism up to the identifier draw\<close>

text \<open>
  C9: a render on a given instance depends on its surroundings only through the date and
  the identifier draw. When the entry has a \<open>notebook_id\<close>, two runs on the same inputs
  give the same document whatever is drawn; when it has none, the document's identifier
  is the value drawn in that call, so two calls whose draws differ give documents with
  different identifiers.
\<close>

theorem rendering_determinism:
  assumes "now_date e1 = now_date e2"
    and "info = select_notebook_info (registry self) e1 notebook_key"
  shows "(uuid4 e1 = uuid4 e2 \<longrightarrow>
            generate_enhanced_header self e1 notebook_key d
              = generate_enhanced_header self e2 notebook_key d)
   \<and> (notebook_id info \<noteq> None \<longrightarrow>
            generate_enhanced_header self e1 notebook_key d
              = generate_enhanced_header self e2 notebook_key d)
   \<and> (notebook_id info = None \<and> assemble self e1 notebook_key = Inr doc1
        \<and> assemble self e2 notebook_key = Inr doc2 \<and> uuid4 e1 \<noteq> uuid4 e2 \<longrightarrow>
          doc1 \<noteq> doc2
          \<and> (\<exists>author affiliation license rest1 rest2.
                doc1 = title_line info
                         @ authorship_block author affiliation license info e1 (uuid4 e1) @ rest1
                \<and> doc2 = title_line info
                         @ authorship_block author affiliation license info e2 (uuid4 e2) @ rest2))"
proof -
  have c1: "uuid4 e1 = uuid4 e2 \<longrightarrow>
            generate_enhanced_header self e1 notebook_key d
              = generate_enhanced_header self e2 notebook_key d"
  proof
    assume "uuid4 e1 = uuid4 e2"
    then show "generate_enhanced_header self e1 notebook_key d
              = generate_enhanced_header self e2 notebook_key d"
      by (intro generate_enhanced_header_env assms(1)) simp
  qed
  have c2: "notebook_id info \<noteq> None \<longrightarrow>
            generate_enhanced_header self e1 notebook_key d
              = generate_enhanced_header self e2 notebook_key d"
  proof
    assume "notebook_id info \<noteq> None"
    then have "dict_get (notebook_id info) (uuid4 e1) = dict_get (notebook_id info) (uuid4 e2)"
      by (auto simp: dict_get_def)
    then show "generate_enhanced_header self e1 notebook_key d
              = generate_enhanced_header self e2 notebook_key d"
      unfolding assms(2) by (intro generate_enhanced_header_env assms(1))
  qed
  have c3: "notebook_id info = None \<and> assemble self e1 notebook_key = Inr doc1
        \<and> assemble self e2 notebook_key = Inr doc2 \<and> uuid4 e1 \<noteq> uuid4 e2 \<longrightarrow>
          doc1 \<noteq> doc2
          \<and> (\<exists>author affiliation license rest1 rest2.
                doc1 = title_line info
                         @ authorship_block author affiliation license info e1 (uuid4 e1) @ rest1
                \<and> doc2 = title_line info
                         @ authorship_block author affiliation license info e2 (uuid4 e2) @ rest2)"
  proof
    assume h: "notebook_id info = None \<and> assemble self e1 notebook_key = Inr doc1
        \<and> assemble self e2 notebook_key = Inr doc2 \<and> uuid4 e1 \<noteq> uuid4 e2"
    have s2: "select_notebook_info (registry self) e2 notebook_key = info"
      unfolding assms(2) by (rule select_notebook_info_env [OF assms(1), symmetric])
    have s1: "select_notebook_info (registry self) e1 notebook_key = info"
      by (simp add: assms(2))
    have n: "\<And>u. dict_get (notebook_id info) u = u"
      using h by (simp add: dict_get_def)
    from h assemble_InrD [of self e1 notebook_key doc1]
    obtain repo author affiliation license name where
      r: "repository (registry self) = Some repo"
        "repo ''author'' = Some author" "repo ''affiliation'' = Some affiliation"
        "repo ''license'' = Some license" "repo ''name'' = Some name"
      by blast
    have d1: "doc1 = finish_header self info e1 (uuid4 e1)
                       (opening_text author affiliation license name info e1 (uuid4 e1))"
      using h assemble_success [OF r, of e1 notebook_key] unfolding s1 n by simp
    have d2: "doc2 = finish_header self info e1 (uuid4 e2)
                       (opening_text author affiliation license name info e1 (uuid4 e2))"
      using h assemble_success [OF r, of e2 notebook_key]
      unfolding s2 n finish_header_env [OF assms(1)] opening_text_env [OF assms(1)] by simp
    have neq: "doc1 \<noteq> doc2"
    proof
      assume "doc1 = doc2"
      then have "uuid4 e1 = uuid4 e2"
        unfolding d1 d2 rendered_text_shape by (rule twice_inj)
      with h show False by simp
    qed
    have "doc1 = title_line info @ authorship_block author affiliation license info e1 (uuid4 e1)
                  @ (citation_block author affiliation name info e1
                     @ contributors_block author affiliation
                     @ finish_header self info e1 (uuid4 e1) [])"
      unfolding d1 by (subst finish_header_eq) (simp add: opening_text_def finish_header_eq)
    moreover have "doc2 = title_line info @ authorship_block author affiliation license info e2 (uuid4 e2)
                  @ (citation_block author affiliation name info e2
                     @ contributors_block author affiliation
                     @ finish_header self info e2 (uuid4 e2) [])"
      unfolding d2 finish_header_env [OF assms(1)] opening_text_env [OF assms(1)]
      by (subst finish_header_eq) (simp add: opening_text_def finish_header_eq)
    ultimately show "doc1 \<noteq> doc2
          \<and> (\<exists>author affiliation license rest1 rest2.
                doc1 = title_line info
                         @ authorship_block author affiliation license info e1 (uuid4 e1) @ rest1
                \<and> doc2 = title_line info
                         @ authorship_block author affiliation license info e2 (uuid4 e2) @ rest2)"
      using neq by blast
  qed
  from c1 c2 c3 show ?thesis by (intro conjI)
qed

text \<open>
  Morning and evening of the same day, with different draws: the entry with an
  identifier renders identically, the entry without one does not.
\<close>

theorem rendering_determinism_witness:
  "now_date env_morning = now_date env_evening
   \<and> uuid4 env_morning \<noteq> uuid4 env_evening
   \<and> generate_enhanced_header example_generator env_morning
        (Some ''Tier2_LinearRegression.ipynb'') True
     = generate_enhanced_header example_generator env_evening
        (Some ''Tier2_LinearRegression.ipynb'') True
   \<and> fst (generate_enhanced_header example_generator env_morning (Some ''Scratch.ipynb'') False)
     \<noteq> fst (generate_enhanced_header example_generator env_evening (Some ''Scratch.ipynb'') False)"
proof -
  have dt: "now_date env_morning = now_date env_evening"
    by (simp add: env_morning_def env_evening_def)
  have du: "uuid4 env_morning \<noteq> uuid4 env_evening"
    by (simp add: env_morning_def env_evening_def)
  have s1: "example_info = select_notebook_info (registry example_generator) env_morning
               (Some ''Tier2_LinearRegression.ipynb'')"
    by (simp add: select_notebook_info_def get_notebooks_def example_registry_def
          example_generator_def)
  have s2: "empty_lists_info = select_notebook_info (registry example_generator) env_morning
               (Some ''Scratch.ipynb'')"
    by (simp add: select_notebook_info_def get_notebooks_def example_registry_def
          example_generator_def)
  have i1: "notebook_id example_info \<noteq> None"
    by (simp add: example_info_def)
  have i2: "notebook_id empty_lists_info = None"
    by (simp add: empty_lists_info_def)
  have ok1: "assemble example_generator env_morning (Some ''Scratch.ipynb'')
     = Inr (fst (generate_enhanced_header example_generator env_morning
                   (Some ''Scratch.ipynb'') False))"
    unfolding generate_enhanced_header_def example_generator_success by simp
  have ok2: "assemble example_generator env_evening (Some ''Scratch.ipynb'')
     = Inr (fst (generate_enhanced_header example_generator env_evening
                   (Some ''Scratch.ipynb'') False))"
    unfolding generate_enhanced_header_def example_generator_success by simp
  have a: "generate_enhanced_header example_generator env_morning
        (Some ''Tier2_LinearRegression.ipynb'') True
     = generate_enhanced_header example_generator env_evening
        (Some ''Tier2_LinearRegression.ipynb'') True"
    using rendering_determinism [OF dt s1, THEN conjunct2, THEN conjunct1] i1 by blast
  have b: "fst (generate_enhanced_header example_generator env_morning (Some ''Scratch.ipynb'') False)
     \<noteq> fst (generate_enhanced_header example_generator env_evening (Some ''Scratch.ipynb'') False)"
    using rendering_determinism [OF dt s2, THEN conjunct2, THEN conjunct2, THEN mp,
        OF conjI [OF i2 conjI [OF ok1 conjI [OF ok2 du]]]]
    by blast
  from dt du a b show ?thesis by blast
qed

subsection \<open>Execution metadata\<close>

text \<open>
  C2, as stated, fails: the timestamp, platform and version shown in the block are read
  from the dictionary stored on the instance by the constructor. A generator constructed
  in the morning and asked to render in the evening shows the morning timestamp, and its
  block does not contain the time of the call.
\<close>

theorem call_time_metadata_counterexample:
  "now_timestamp env_evening = ''2025-03-01 21:30:15''
   \<and> execution_provenance_lines (fst (init failing_json_load Missing env_morning))
        (unknown_notebook_info env_evening) env_evening (uuid4 env_evening)
      = ''- **Created:** 2025-03-01\<newline>''
        @ ''- **Notebook ID:** 7d9e0f1a-2b3c-4d5e-9f60-718293a4b5c6\<newline>''
        @ ''- **Execution Environment:** Jupyter Lab / VS Code\<newline>''
        @ ''- **Computational Requirements:** Standard laptop/workstation (2GB+ RAM recommended)\<newline>''
        @ ''- **Current Execution:** 2025-03-01 09:00:00\<newline>''
        @ ''- **Platform:** Linux-6.1.0-x86_64-with-glibc2.36\<newline>''
        @ ''- **Python Version:** 3.11.4\<newline>''
   \<and> \<not> str_in ''21:30:15''
         (execution_provenance_lines (fst (init failing_json_load Missing env_morning))
            (unknown_notebook_info env_evening) env_evening (uuid4 env_evening))
   \<and> (\<exists>before after.
         fst (generate_enhanced_header (fst (init failing_json_load Missing env_morning))
                env_evening (Some ''Tier3_TimeSeries.ipynb'') False)
         = before
           @ execution_provenance_lines (fst (init failing_json_load Missing env_morning))
               (unknown_notebook_info env_evening) env_evening (uuid4 env_evening)
           @ after)"
proof -
  have n: "str_nat 3 = ''3''" "str_nat 11 = ''11''" "str_nat 4 = ''4''"
    by (simp_all add: str_nat.simps digit_char_def)
  have g: "fst (init failing_json_load Missing env_morning)
             = \<lparr> registry = get_fallback_registry,
                 execution_metadata =
                   \<lparr> execution_timestamp = ''2025-03-01 09:00:00'',
                     platform = ''Linux-6.1.0-x86_64-with-glibc2.36'',
                     python_version = ''3.11.4'' \<rparr> \<rparr>"
    by (simp add: init_def load_registry_def env_morning_def n)
  have t: "now_timestamp env_evening = ''2025-03-01 21:30:15''"
    by (simp add: env_evening_def)
  have l: "execution_provenance_lines (fst (init failing_json_load Missing env_morning))
        (unknown_notebook_info env_evening) env_evening (uuid4 env_evening)
      = ''- **Created:** 2025-03-01\<newline>''
        @ ''- **Notebook ID:** 7d9e0f1a-2b3c-4d5e-9f60-718293a4b5c6\<newline>''
        @ ''- **Execution Environment:** Jupyter Lab / VS Code\<newline>''
        @ ''- **Computational Requirements:** Standard laptop/workstation (2GB+ RAM recommended)\<newline>''
        @ ''- **Current Execution:** 2025-03-01 09:00:00\<newline>''
        @ ''- **Platform:** Linux-6.1.0-x86_64-with-glibc2.36\<newline>''
        @ ''- **Python Version:** 3.11.4\<newline>''"
    unfolding g
    by (simp add: execution_provenance_lines_def execution_environment_lines_def
          unknown_notebook_info_def env_evening_def dict_get_def)
  have ns: "\<not> str_in ''21:30:15''
      (''- **Created:** 2025-03-01\<newline>''
        @ ''- **Notebook ID:** 7d9e0f1a-2b3c-4d5e-9f60-718293a4b5c6\<newline>''
        @ ''- **Execution Environment:** Jupyter Lab / VS Code\<newline>''
        @ ''- **Computational Requirements:** Standard laptop/workstation (2GB+ RAM recommended)\<newline>''
        @ ''- **Current Execution:** 2025-03-01 09:00:00\<newline>''
        @ ''- **Platform:** Linux-6.1.0-x86_64-with-glibc2.36\<newline>''
        @ ''- **Python Version:** 3.11.4\<newline>'')"
    by code_simp
  have r: "registry (fst (init failing_json_load Missing env_morning)) = get_fallback_registry"
    by (simp add: g)
  have sel: "select_notebook_info get_fallback_registry env_evening (Some ''Tier3_TimeSeries.ipynb'')
               = unknown_notebook_info env_evening"
    by (simp add: select_notebook_info_def get_notebooks_def get_fallback_registry_def)
  have i: "dict_get (notebook_id (unknown_notebook_info env_evening)) (uuid4 env_evening)
             = uuid4 env_evening"
    by (simp add: unknown_notebook_info_def dict_get_def)
  note ok = assemble_success [of "fst (init failing_json_load Missing env_morning)" _
        "''Bryson Charles de los Reyes, PHD''"
        "''Universidad Cat'' @ [CHR 0xC3, CHR 0xB3] @ ''lica de Santa Mar'' @ [CHR 0xC3, CHR 0xAD] @ ''a''"
        "''MIT''" "''Quipu Analytics Suite''" env_evening "Some ''Tier3_TimeSeries.ipynb''",
        unfolded r sel i, OF fallback_repository]
  have ok': "assemble (fst (init failing_json_load Missing env_morning)) env_evening
               (Some ''Tier3_TimeSeries.ipynb'')
             = Inr (finish_header (fst (init failing_json_load Missing env_morning))
                      (unknown_notebook_info env_evening) env_evening (uuid4 env_evening)
                      (opening_text ''Bryson Charles de los Reyes, PHD''
                         (''Universidad Cat'' @ [CHR 0xC3, CHR 0xB3] @ ''lica de Santa Mar'' @ [CHR 0xC3, CHR 0xAD] @ ''a'')
                         ''MIT'' ''Quipu Analytics Suite'' (unknown_notebook_info env_evening)
                         env_evening (uuid4 env_evening)))"
    by (rule ok) simp_all
  have d: "\<exists>before after.
         fst (generate_enhanced_header (fst (init failing_json_load Missing env_morning))
                env_evening (Some ''Tier3_TimeSeries.ipynb'') False)
         = before
           @ execution_provenance_lines (fst (init failing_json_load Missing env_morning))
               (unknown_notebook_info env_evening) env_evening (uuid4 env_evening)
           @ after"
    unfolding generate_enhanced_header_def ok' finish_header_eq sum.case fst_conv
    by (metis append.assoc)
  from t l ns d show ?thesis
    by (simp only: l) blast
qed

text \<open>
  C2, amended: the Current Execution, Platform and Python Version lines of the Execution
  Provenance block are populated from the timestamp, platform and runtime version
  captured once, when the renderer instance is constructed, and stored on the instance.
  Rendering reads none of the three at call time, so render calls made at different
  times on the same instance show the same construction-time values.
\<close>

theorem execution_metadata_from_construction:
  "execution_environment_lines (fst (init json_load file env0))
     = ''- **Execution Environment:** Jupyter Lab / VS Code\<newline>''
       @ ''- **Computational Requirements:** Standard laptop/workstation (2GB+ RAM recommended)\<newline>''
       @ ''- **Current Execution:** '' @ now_timestamp env0 @ ''\<newline>''
       @ ''- **Platform:** '' @ platform_platform env0 @ ''\<newline>''
       @ ''- **Python Version:** ''
       @ str_nat (fst (version_info env0)) @ ''.''
       @ str_nat (fst (snd (version_info env0))) @ ''.''
       @ str_nat (snd (snd (version_info env0))) @ ''\<newline>''
   \<and> generate_enhanced_header self
         (env\<lparr>now_timestamp := ts, platform_platform := pf, version_info := vi\<rparr>)
         notebook_key d
       = generate_enhanced_header self env notebook_key d
   \<and> (assemble self env notebook_key = Inr doc \<longrightarrow>
        (\<exists>before created_and_id after.
           doc = before @ execution_provenance_heading @ created_and_id
                 @ execution_environment_lines self @ after))"
proof (intro conjI impI)
  show "execution_environment_lines (fst (init json_load file env0))
     = ''- **Execution Environment:** Jupyter Lab / VS Code\<newline>''
       @ ''- **Computational Requirements:** Standard laptop/workstation (2GB+ RAM recommended)\<newline>''
       @ ''- **Current Execution:** '' @ now_timestamp env0 @ ''\<newline>''
       @ ''- **Platform:** '' @ platform_platform env0 @ ''\<newline>''
       @ ''- **Python Version:** ''
       @ str_nat (fst (version_info env0)) @ ''.''
       @ str_nat (fst (snd (version_info env0))) @ ''.''
       @ str_nat (snd (snd (version_info env0))) @ ''\<newline>''"
    by (simp add: execution_environment_lines_def init_def Let_def case_prod_beta)
  show "generate_enhanced_header self
         (env\<lparr>now_timestamp := ts, platform_platform := pf, version_info := vi\<rparr>)
         notebook_key d
       = generate_enhanced_header self env notebook_key d"
    by (rule generate_enhanced_header_env) simp_all
next
  assume "assemble self env notebook_key = Inr doc"
  from assemble_InrD [OF this]
  obtain author affiliation license name where
    "doc = finish_header self (select_notebook_info (registry self) env notebook_key) env
                  (dict_get (notebook_id (select_notebook_info (registry self) env notebook_key))
                     (uuid4 env))
                  (opening_text author affiliation license name
                     (select_notebook_info (registry self) env notebook_key) env
                     (dict_get (notebook_id (select_notebook_info (registry self) env notebook_key))
                        (uuid4 env)))"
    by blast
  then show "\<exists>before created_and_id after.
           doc = before @ execution_provenance_heading @ created_and_id
                 @ execution_environment_lines self @ after"
    unfolding finish_header_eq execution_provenance_lines_def
    by (metis append.assoc)
qed

text \<open>
  On the example generator, whose stored metadata dates from the morning: rendering in
  the evening gives the same result as rendering at any other time of that day, and
  the document contains the instance's own environment lines.
\<close>

theorem execution_metadata_from_construction_witness:
  "generate_enhanced_header example_generator
       (env_morning\<lparr>now_timestamp := ''2025-03-01 21:30:15'',
                      platform_platform := platform_platform env_morning,
                      version_info := version_info env_morning\<rparr>)
       (Some ''Tier2_LinearRegression.ipynb'') True
     = generate_enhanced_header example_generator env_morning
         (Some ''Tier2_LinearRegression.ipynb'') True
   \<and> (\<exists>before created_and_id after.
         fst (generate_enhanced_header example_generator env_evening
                (Some ''Tier2_LinearRegression.ipynb'') False)
         = before @ execution_provenance_heading @ created_and_id
           @ execution_environment_lines example_generator @ after)"
proof -
  have ok: "assemble example_generator env_evening (Some ''Tier2_LinearRegression.ipynb'')
     = Inr (fst (generate_enhanced_header example_generator env_evening
                   (Some ''Tier2_LinearRegression.ipynb'') False))"
    unfolding generate_enhanced_header_def example_generator_success by simp
  note a = execution_metadata_from_construction [
      where self = example_generator and env = env_morning
        and ts = "''2025-03-01 21:30:15''" and pf = "platform_platform env_morning"
        and vi = "version_info env_morning"
        and notebook_key = "Some ''Tier2_LinearRegression.ipynb''" and d = True,
      THEN conjunct2, THEN conjunct1]
  note b = execution_metadata_from_construction [THEN conjunct2, THEN conjunct2, THEN mp, OF ok]
  from a b show ?thesis by (rule conjI)
qed

end
